theory Spec2Isabelle
  imports Complex_Main "HOL-Library.Sublist"
begin

section \<open>The OpenAPI response monitor (enhanced_openapi_monitor.py)\<close>

text \<open>
  A shallow embedding of class \<open>EnhancedOpenAPIMonitor\<close>: the request executor
  \<open>make_sample_request\<close>, the round loop of \<open>monitor_responses\<close> and the report
  generator \<open>generate_reports\<close>.

  Conventions of the embedding.
  \<^item> Python \<open>int\<close> is \<open>int\<close>; a Python \<open>float\<close> (clock readings, latencies, rates) is an
    exact rational \<open>rat\<close>, so floating-point rounding is not part of the model.
  \<^item> A \<open>dict\<close> is an association list with distinct keys in insertion order.
  \<^item> An exception is a value of \<open>py_exception\<close>; a computation that may raise returns
    \<open>py_exception + 'a\<close> with \<open>Inl\<close> for the raise.
  \<^item> The network, the clock and signal delivery are inputs of the model: every function
    that talks to them takes a description of what they do as an argument.
  \<^item> Writing to the output directory is assumed not to fail, and the optional
    \<open>tcpdump\<close> child process (which touches no field of the monitor) is left out.
\<close>

subsection \<open>Python values and builtins\<close>

datatype py_exception =
    AsyncioTimeoutError
  | ClientError string
  | JSONDecodeError string
  | ValueError string
  | ZeroDivisionError
  | IndexError
  | TypeError

text \<open>\<open>str(e)\<close>: the message an exception was built with.\<close>

fun str_exc :: "py_exception \<Rightarrow> string" where
  "str_exc AsyncioTimeoutError = ''''"
| "str_exc (ClientError msg) = msg"
| "str_exc (JSONDecodeError msg) = msg"
| "str_exc (ValueError msg) = msg"
| "str_exc ZeroDivisionError = ''division by zero''"
| "str_exc IndexError = ''list index out of range''"
| "str_exc TypeError = ''an integer is required''"

text \<open>Sequencing of computations that may raise: the first raise wins.\<close>

fun and_then :: "py_exception + 'a \<Rightarrow> ('a \<Rightarrow> py_exception + 'b) \<Rightarrow> py_exception + 'b" where
  "and_then (Inl e) f = Inl e"
| "and_then (Inr x) f = f x"

text \<open>\<open>xs[i]\<close> for a non-negative index.\<close>

definition py_index :: "'a list \<Rightarrow> nat \<Rightarrow> py_exception + 'a" where
  "py_index xs i = (if i < length xs then Inr (xs ! i) else Inl IndexError)"

text \<open>\<open>a / b\<close> on numbers.\<close>

definition py_truediv :: "rat \<Rightarrow> rat \<Rightarrow> py_exception + rat" where
  "py_truediv a b = (if b = 0 then Inl ZeroDivisionError else Inr (a / b))"

text \<open>\<open>min(xs)\<close> and \<open>max(xs)\<close>: a left-to-right scan; the empty list raises.\<close>

fun py_min :: "rat list \<Rightarrow> py_exception + rat" where
  "py_min [] = Inl (ValueError ''min() arg is an empty sequence'')"
| "py_min (x # xs) = Inr (fold (\<lambda>y m. if y < m then y else m) xs x)"

fun py_max :: "rat list \<Rightarrow> py_exception + rat" where
  "py_max [] = Inl (ValueError ''max() arg is an empty sequence'')"
| "py_max (x # xs) = Inr (fold (\<lambda>y m. if m < y then y else m) xs x)"

text \<open>
  \<open>int(n * 0.95)\<close> and \<open>int(n * 0.99)\<close> for a list length \<open>n\<close>: the floor of
  \<open>n * p / 100\<close>, computed on integers.
\<close>

definition percentile_index :: "nat \<Rightarrow> nat \<Rightarrow> nat" where
  "percentile_index n p = (n * p) div 100"

text \<open>\<open>round(x, 2)\<close>: to two decimals, a tie going to the even neighbour.\<close>

definition py_round2 :: "rat \<Rightarrow> rat" where
  "py_round2 x =
     (let y = x * 100; f = \<lfloor>y\<rfloor>; r = y - of_int f
      in of_int (if r < 1 / 2 then f else if 1 / 2 < r then f + 1
                 else if even f then f else f + 1) / 100)"

text \<open>\<open>sub in s\<close> on strings.\<close>

fun str_contains :: "string \<Rightarrow> string \<Rightarrow> bool" where
  "str_contains sub [] = (sub = [])"
| "str_contains sub (c # cs) = (prefix sub (c # cs) \<or> str_contains sub cs)"

subsection \<open>Dictionaries\<close>

text \<open>\<open>d.get(k, dflt)\<close>.\<close>

fun dict_get :: "('k \<times> 'v) list \<Rightarrow> 'k \<Rightarrow> 'v \<Rightarrow> 'v" where
  "dict_get [] k dflt = dflt"
| "dict_get ((k', v) # d) k dflt = (if k' = k then v else dict_get d k dflt)"

text \<open>\<open>d[k] = v\<close>: an existing key keeps its position, a new key goes last.\<close>

fun dict_set :: "('k \<times> 'v) list \<Rightarrow> 'k \<Rightarrow> 'v \<Rightarrow> ('k \<times> 'v) list" where
  "dict_set [] k v = [(k, v)]"
| "dict_set ((k', v') # d) k v = (if k' = k then (k', v) # d else (k', v') # dict_set d k v)"

text \<open>\<open>d[k] += 1\<close> on a \<open>defaultdict(int)\<close>.\<close>

definition dict_incr :: "('k \<times> int) list \<Rightarrow> 'k \<Rightarrow> ('k \<times> int) list" where
  "dict_incr d k = dict_set d k (dict_get d k 0 + 1)"

text \<open>\<open>sum(d.values())\<close>.\<close>

definition dict_total :: "('k \<times> int) list \<Rightarrow> int" where
  "dict_total d = sum_list (map snd d)"

subsection \<open>The statistics of a session\<close>

record stats =
  total_requests :: int
  successful_requests :: int
  failed_requests :: int
  status_codes :: "(int \<times> int) list"
  response_times :: "rat list"
  errors :: "string list"

definition init_stats :: stats where
  "init_stats = \<lparr>total_requests = 0, successful_requests = 0, failed_requests = 0,
                 status_codes = [], response_times = [], errors = []\<rparr>"

subsection \<open>Response records\<close>

datatype json =
    JNull
  | JBool bool
  | JNumber rat
  | JString string
  | JArray "json list"
  | JObject "(string \<times> json) list"

text \<open>
  The value stored under \<open>response_body\<close>: the decoded structure, or a string (the raw
  text, or the message of a synthesized error).
\<close>

datatype body = Decoded json | Raw string

text \<open>
  The dictionary built per probe. The key \<open>error\<close> exists only in the two synthesized
  records, hence the option.
\<close>

record response_record =
  timestamp :: string
  endpoint :: string
  http_method :: string
  status_code :: int
  status_text :: string
  headers :: "(string \<times> string) list"
  response_body :: body
  body_type :: string
  latency_ms :: rat
  content_length :: int
  content_type :: string
  request_start_time :: rat
  request_end_time :: rat
  error :: "string option"

subsection \<open>What the network and the clock do during one probe\<close>

text \<open>
  An \<open>aiohttp\<close> response object: \<open>status\<close>, \<open>reason\<close>, the header multi-dictionary and
  what \<open>await response.text()\<close> does (returns the text or raises).
\<close>

record client_response =
  status :: int
  reason :: string
  hdrs :: "(string \<times> string) list"
  body_read :: "py_exception + string"

datatype request_outcome = Raises py_exception | Responds client_response

text \<open>
  One probe as the environment plays it: the exception raised by, or the response to,
  \<open>session.request\<close>, the successive readings of \<open>time.time()\<close> (on entry, when the
  response has arrived, and the two readings of an \<open>except\<close> block) and of
  \<open>datetime.now().isoformat()\<close> (in the \<open>try\<close> block and in an \<open>except\<close> block), and
  the moment \<open>settled\<close> at which the coroutine, its awaits over, updates the statistics and
  returns.
\<close>

record probe =
  clock_start :: rat
  outcome :: request_outcome
  clock_end :: rat
  clock_except1 :: rat
  clock_except2 :: rat
  iso_try :: string
  iso_except :: string
  settled :: rat

subsection \<open>Headers\<close>

definition ascii_lower :: "char \<Rightarrow> char" where
  "ascii_lower c =
     (let n = (of_char c :: nat) in if 65 \<le> n \<and> n \<le> 90 then char_of (n + 32) else c)"

text \<open>Header names compare without regard to case; the first match is returned.\<close>

fun header_get :: "(string \<times> string) list \<Rightarrow> string \<Rightarrow> string option" where
  "header_get [] name = None"
| "header_get ((k, v) # h) name =
     (if map ascii_lower k = map ascii_lower name then Some v else header_get h name)"

text \<open>\<open>dict(response.headers)\<close>: every key that occurs, with the value a lookup gives.\<close>

definition dict_of_headers :: "(string \<times> string) list \<Rightarrow> (string \<times> string) list" where
  "dict_of_headers h =
     fold (\<lambda>(k, v) d. dict_set d k (case header_get h k of Some w \<Rightarrow> w | None \<Rightarrow> v)) h []"

subsection \<open>\<open>int\<close> of a string\<close>

text \<open>
  The strings of the model are ASCII strings. \<open>int\<close> drops surrounding white space (tab,
  line feed, vertical tab, form feed, carriage return, blank), accepts a sign, and reads
  decimal digits in which single underscores may separate digits. The message of its
  \<open>ValueError\<close> shows the \<open>repr\<close> of the argument.
\<close>

definition is_space :: "char \<Rightarrow> bool" where
  "is_space c = (let n = (of_char c :: nat) in (9 \<le> n \<and> n \<le> 13) \<or> n = 32)"

definition is_digit :: "char \<Rightarrow> bool" where
  "is_digit c = (let n = (of_char c :: nat) in 48 \<le> n \<and> n \<le> 57)"

definition digit_val :: "char \<Rightarrow> int" where
  "digit_val c = int (of_char c) - 48"

text \<open>
  Decimal digits, where single underscores may stand between two digits. The flag says
  whether the character before was a digit.
\<close>

fun digits_val :: "string \<Rightarrow> bool \<Rightarrow> int \<Rightarrow> int option" where
  "digits_val [] prev acc = (if prev then Some acc else None)"
| "digits_val (c # cs) prev acc =
     (if is_digit c then digits_val cs True (acc * 10 + digit_val c)
      else if c = CHR ''_'' \<and> prev then
        (case cs of [] \<Rightarrow> None
         | d # ds \<Rightarrow> if is_digit d then digits_val cs False acc else None)
      else None)"

definition strip :: "string \<Rightarrow> string" where
  "strip s = rev (dropWhile is_space (rev (dropWhile is_space s)))"

text \<open>
  \<open>repr\<close> of an ASCII string: between apostrophes, or between double quotes when the
  string holds an apostrophe and no double quote; the backslash, the quote in use and the
  control characters are escaped.
\<close>

definition hex_digit :: "nat \<Rightarrow> char" where
  "hex_digit n = (if n < 10 then char_of (48 + n) else char_of (87 + n))"

definition repr_char :: "char \<Rightarrow> char \<Rightarrow> string" where
  "repr_char q c =
     (let n = (of_char c :: nat)
      in if c = CHR 0x5C then [CHR 0x5C, CHR 0x5C]
         else if c = q then [CHR 0x5C, q]
         else if n = 9 then [CHR 0x5C, CHR ''t'']
         else if n = 10 then [CHR 0x5C, CHR ''n'']
         else if n = 13 then [CHR 0x5C, CHR ''r'']
         else if n < 32 \<or> n = 127
           then [CHR 0x5C, CHR ''x'', hex_digit (n div 16), hex_digit (n mod 16)]
         else [c])"

definition py_repr :: "string \<Rightarrow> string" where
  "py_repr s =
     (let q = (if CHR 0x27 \<in> set s \<and> CHR 0x22 \<notin> set s then CHR 0x22 else CHR 0x27)
      in [q] @ concat (map (repr_char q) s) @ [q])"

definition py_int_of_str :: "string \<Rightarrow> py_exception + int" where
  "py_int_of_str s =
     (let t = strip s;
          r = (case t of
                 [] \<Rightarrow> None
               | c # cs \<Rightarrow>
                   if c = CHR ''-'' then map_option uminus (digits_val cs False 0)
                   else if c = CHR ''+'' then digits_val cs False 0
                   else digits_val t False 0)
      in case r of
           Some n \<Rightarrow> Inr n
         | None \<Rightarrow>
             Inl (ValueError (''invalid literal for int() with base 10: '' @ py_repr s)))"

text \<open>\<open>int(response.headers.get('Content-Length', 0))\<close>.\<close>

definition content_length_of :: "(string \<times> string) list \<Rightarrow> py_exception + int" where
  "content_length_of h =
     (case header_get h ''Content-Length'' of None \<Rightarrow> Inr 0 | Some v \<Rightarrow> py_int_of_str v)"

subsection \<open>The request executor: \<open>make_sample_request\<close>\<close>

text \<open>
  The HTTP method: \<open>POST\<close> when the address contains one of six words. The body sent
  with a \<open>POST\<close> is built from the address and the clock; it goes to the network and
  shows in no result, so the model leaves it to the environment.
\<close>

definition request_method :: "string \<Rightarrow> string" where
  "request_method ep =
     (if list_ex (\<lambda>x. str_contains x ep)
           [''register'', ''login'', ''compose'', ''upload'', ''follow'', ''unfollow'']
      then ''POST'' else ''GET'')"

text \<open>
  Reading the body: the two inner \<open>try\<close> blocks. \<open>json.loads\<close> is a parameter of the
  model. Its \<open>JSONDecodeError\<close> keeps the raw text; any other exception, of it or of
  \<open>response.text()\<close>, is caught by \<open>except Exception\<close> and becomes the body.
\<close>

definition read_body :: "(string \<Rightarrow> py_exception + json) \<Rightarrow> py_exception + string \<Rightarrow> body \<times> string" where
  "read_body json_loads r =
     (case r of
        Inr txt \<Rightarrow>
          (case json_loads txt of
             Inr j \<Rightarrow> (Decoded j, ''json'')
           | Inl (JSONDecodeError msg) \<Rightarrow> (Raw txt, ''text'')
           | Inl e \<Rightarrow> (Raw (''Error reading response: '' @ str_exc e), ''error''))
      | Inl e \<Rightarrow> (Raw (''Error reading response: '' @ str_exc e), ''error''))"

text \<open>The statistics update of the \<open>try\<close> block (source lines 171 to 179).\<close>

definition record_response :: "stats \<Rightarrow> int \<Rightarrow> rat \<Rightarrow> stats" where
  "record_response st code latency =
     (let st1 = st\<lparr>total_requests := total_requests st + 1,
                   status_codes := dict_incr (status_codes st) code,
                   response_times := response_times st @ [latency]\<rparr>
      in if 200 \<le> code \<and> code < 400
         then st1\<lparr>successful_requests := successful_requests st1 + 1\<rparr>
         else st1\<lparr>failed_requests := failed_requests st1 + 1\<rparr>)"

text \<open>The statistics update of either \<open>except\<close> block.\<close>

definition record_failure :: "stats \<Rightarrow> string \<Rightarrow> stats" where
  "record_failure st msg =
     st\<lparr>total_requests := total_requests st + 1,
        failed_requests := failed_requests st + 1,
        errors := errors st @ [msg]\<rparr>"

text \<open>
  The outer \<open>try\<close> block. It raises what \<open>session.request\<close> raises, or the
  \<open>ValueError\<close> of a \<open>Content-Length\<close> that is no integer; both happen before the
  statistics are touched, so a raise leaves them as they were.
\<close>

definition try_request ::
  "(string \<Rightarrow> py_exception + json) \<Rightarrow> stats \<Rightarrow> string \<Rightarrow> probe \<Rightarrow> py_exception + (response_record \<times> stats)" where
  "try_request json_loads st ep p =
     (case outcome p of
        Raises e \<Rightarrow> Inl e
      | Responds response \<Rightarrow>
          (let latency = (clock_end p - clock_start p) * 1000;
               (response_json, btype) = read_body json_loads (body_read response)
           in and_then (content_length_of (hdrs response)) (\<lambda>clen.
                Inr (\<lparr>timestamp = iso_try p,
                      endpoint = ep,
                      http_method = request_method ep,
                      status_code = status response,
                      status_text = reason response,
                      headers = dict_of_headers (hdrs response),
                      response_body = response_json,
                      body_type = btype,
                      latency_ms = py_round2 latency,
                      content_length = clen,
                      content_type =
                        (case header_get (hdrs response) ''Content-Type'' of
                           Some v \<Rightarrow> v | None \<Rightarrow> []),
                      request_start_time = clock_start p,
                      request_end_time = clock_end p,
                      error = None\<rparr>,
                     record_response st (status response) latency))))"

text \<open>The record synthesized by an \<open>except\<close> block.\<close>

definition error_data :: "string \<Rightarrow> probe \<Rightarrow> int \<Rightarrow> string \<Rightarrow> string \<Rightarrow> string \<Rightarrow> response_record" where
  "error_data ep p code txt bdy err =
     \<lparr>timestamp = iso_except p,
      endpoint = ep,
      http_method = request_method ep,
      status_code = code,
      status_text = txt,
      headers = [],
      response_body = Raw bdy,
      body_type = ''error'',
      latency_ms = (clock_except1 p - clock_start p) * 1000,
      content_length = 0,
      content_type = [],
      request_start_time = clock_start p,
      request_end_time = clock_except2 p,
      error = Some err\<rparr>"

text \<open>
  The three blocks of the function: the \<open>try\<close> block, \<open>except asyncio.TimeoutError\<close> and
  \<open>except Exception\<close>. The result is what the coroutine hands to \<open>asyncio.gather\<close>: an
  exception (\<open>Inl\<close>) or the dictionary (\<open>Inr\<close>), with the statistics after the call.
\<close>

definition sample_request ::
  "(string \<Rightarrow> py_exception + json) \<Rightarrow> stats \<Rightarrow> string \<Rightarrow> probe \<Rightarrow> (py_exception + response_record) \<times> stats" where
  "sample_request json_loads st ep p =
     (case try_request json_loads st ep p of
        Inr (response_data, st') \<Rightarrow> (Inr response_data, st')
      | Inl AsyncioTimeoutError \<Rightarrow>
          (Inr (error_data ep p 408 ''Request Timeout'' ''Request timed out'' ''timeout''),
           record_failure st ''timeout'')
      | Inl e \<Rightarrow>
          (Inr (error_data ep p 0 ''Connection Error''
                  (''Connection error: '' @ str_exc e) (str_exc e)),
           record_failure st (str_exc e)))"

subsection \<open>The monitor object and its files\<close>

text \<open>
  The fields of the object, and with them the two kinds of file it writes:
  \<open>log_file\<close> is the sequence of lines of \<open>openapi_responses.jsonl\<close> (one dictionary per
  line), \<open>report_runs\<close> has one entry for every run of \<open>generate_reports\<close>, holding the
  three documents that run wrote, and \<open>sleep_calls\<close> lists the arguments of the calls of
  \<open>asyncio.sleep\<close>.
\<close>

record latency_stats =
  min_ms :: rat
  max_ms :: rat
  mean_ms :: rat
  median_ms :: rat
  p95_ms :: rat
  p99_ms :: rat

record summary =
  collection_start_time :: rat
  duration_seconds :: int
  total_responses :: int
  endpoints_monitored :: "string list"
  sample_interval_seconds :: int
  stat_total_requests :: int
  stat_successful_requests :: int
  stat_failed_requests :: int
  success_rate_percent :: rat
  status_code_distribution :: "(int \<times> int) list"
  latency_statistics :: "latency_stats option"
  total_errors :: int
  unique_errors :: int
  common_errors :: "string list"

record endpoint_perf =
  ep_count :: int
  avg_latency :: rat
  ep_status_codes :: "(int \<times> int) list"

record reports =
  response_summary :: summary
  status_code_csv :: "(int \<times> int \<times> rat) list"
  endpoint_performance :: "(string \<times> endpoint_perf) list"

record monitor =
  duration :: int
  sample_interval :: int
  responses :: "response_record list"
  start_time :: "rat option"
  running :: bool
  endpoints :: "string list"
  stats :: stats
  log_file :: "response_record list"
  report_runs :: "reports list"
  sleep_calls :: "int list"

text \<open>The constructor.\<close>

definition init_monitor :: "int \<Rightarrow> int \<Rightarrow> monitor" where
  "init_monitor dur interval =
     \<lparr>duration = dur,
      sample_interval = interval,
      responses = [],
      start_time = None,
      running = True,
      endpoints =
        [''http://localhost:8080/wrk2-api/user/register'',
         ''http://localhost:8080/wrk2-api/user/follow'',
         ''http://localhost:8080/wrk2-api/user/unfollow'',
         ''http://localhost:8080/wrk2-api/user/login'',
         ''http://localhost:8080/wrk2-api/post/compose'',
         ''http://localhost:8080/wrk2-api/home-timeline/read'',
         ''http://localhost:8080/wrk2-api/user-timeline/read'',
         ''http://localhost:8080/wrk2-api/user/profile'',
         ''http://localhost:8080/wrk2-api/media/upload'',
         ''http://localhost:8080/wrk2-api/text/upload'',
         ''http://localhost:8080/wrk2-api/url/shorten'',
         ''http://localhost:8080/wrk2-api/user-mention/upload''],
      stats = init_stats,
      log_file = [],
      report_runs = [],
      sleep_calls = []\<rparr>"

text \<open>
  The method \<open>make_sample_request\<close> of the object: of all the fields of \<open>self\<close> it reads
  and writes \<open>self.stats\<close> only.
\<close>

definition make_sample_request ::
  "(string \<Rightarrow> py_exception + json) \<Rightarrow> monitor \<Rightarrow> string \<Rightarrow> probe \<Rightarrow> (py_exception + response_record) \<times> monitor" where
  "make_sample_request json_loads m ep p =
     (let (result, st) = sample_request json_loads (stats m) ep p
      in (result, m\<lparr>stats := st\<rparr>))"

subsection \<open>The report generator: \<open>generate_reports\<close>\<close>

text \<open>
  The latency statistics: the empty dictionary (\<open>None\<close>) when no latency was collected,
  otherwise six numbers read off the sorted list.
\<close>

definition compute_latency_stats :: "rat list \<Rightarrow> py_exception + latency_stats option" where
  "compute_latency_stats rts =
     (if rts = [] then Inr None
      else
        let times = sort rts in
        and_then (py_min times) (\<lambda>mn.
        and_then (py_max times) (\<lambda>mx.
        and_then (py_truediv (sum_list times) (of_nat (length times))) (\<lambda>mean.
        and_then (py_index times (length times div 2)) (\<lambda>med.
        and_then (py_index times (percentile_index (length times) 95)) (\<lambda>p95.
        and_then (py_index times (percentile_index (length times) 99)) (\<lambda>p99.
          Inr (Some \<lparr>min_ms = mn, max_ms = mx, mean_ms = mean,
                      median_ms = med, p95_ms = p95, p99_ms = p99\<rparr>))))))))"

text \<open>
  The rows of \<open>status_code_distribution.csv\<close> after the header line, for the sorted
  items of the histogram.
\<close>

fun csv_rows :: "int \<Rightarrow> (int \<times> int) list \<Rightarrow> py_exception + (int \<times> int \<times> rat) list" where
  "csv_rows tot [] = Inr []"
| "csv_rows tot ((code, cnt) # items) =
     and_then
       (if tot > 0
        then and_then (py_truediv (of_int cnt) (of_int tot)) (\<lambda>q. Inr (q * 100))
        else Inr 0) (\<lambda>percentage.
     and_then (csv_rows tot items) (\<lambda>rows.
       Inr ((code, cnt, percentage) # rows)))"

text \<open>The per-endpoint accumulation over \<open>self.responses\<close>, then the averaging pass.\<close>

definition add_response :: "(string \<times> endpoint_perf) list \<Rightarrow> response_record \<Rightarrow> (string \<times> endpoint_perf) list" where
  "add_response d r =
     (let e = dict_get d (endpoint r) \<lparr>ep_count = 0, avg_latency = 0, ep_status_codes = []\<rparr>
      in dict_set d (endpoint r)
           \<lparr>ep_count = ep_count e + 1,
            avg_latency = avg_latency e + latency_ms r,
            ep_status_codes = dict_incr (ep_status_codes e) (status_code r)\<rparr>)"

fun average_all :: "(string \<times> endpoint_perf) list \<Rightarrow> py_exception + (string \<times> endpoint_perf) list" where
  "average_all [] = Inr []"
| "average_all ((ep, e) # d) =
     and_then
       (if ep_count e > 0
        then and_then (py_truediv (avg_latency e) (of_int (ep_count e)))
               (\<lambda>a. Inr (e\<lparr>avg_latency := a\<rparr>))
        else Inr e) (\<lambda>e'.
     and_then (average_all d) (\<lambda>d'.
       Inr ((ep, e') # d')))"

text \<open>
  \<open>datetime.fromtimestamp(self.start_time)\<close> raises \<open>TypeError\<close> on \<open>None\<close>, the value
  the constructor leaves there. The summary keeps the time stamp itself in place of its
  ISO text.
\<close>

definition fromtimestamp :: "rat option \<Rightarrow> py_exception + rat" where
  "fromtimestamp t = (case t of None \<Rightarrow> Inl TypeError | Some x \<Rightarrow> Inr x)"

text \<open>
  The whole method, in the order of the source: latency statistics, summary, table,
  per-endpoint document. \<open>set(errors)\<close> has no order of its own; \<open>remdups\<close> stands for
  one listing of it. A raise ends the method; otherwise one entry is added to
  \<open>report_runs\<close>.
\<close>

definition generate_reports :: "monitor \<Rightarrow> py_exception + monitor" where
  "generate_reports m =
     and_then (compute_latency_stats (response_times (stats m))) (\<lambda>lat.
     and_then (fromtimestamp (start_time m)) (\<lambda>t0.
     and_then (py_truediv (of_int (successful_requests (stats m)))
                          (of_int (max 1 (total_requests (stats m))))) (\<lambda>q.
     and_then (csv_rows (dict_total (status_codes (stats m)))
                        (sort_key fst (status_codes (stats m)))) (\<lambda>rows.
     and_then (average_all (fold (\<lambda>r d. add_response d r) (responses m) [])) (\<lambda>perf.
       Inr (m\<lparr>report_runs := report_runs m @
                [\<lparr>response_summary =
                    \<lparr>collection_start_time = t0,
                     duration_seconds = duration m,
                     total_responses = int (length (responses m)),
                     endpoints_monitored = endpoints m,
                     sample_interval_seconds = sample_interval m,
                     stat_total_requests = total_requests (stats m),
                     stat_successful_requests = successful_requests (stats m),
                     stat_failed_requests = failed_requests (stats m),
                     success_rate_percent = q * 100,
                     status_code_distribution = status_codes (stats m),
                     latency_statistics = lat,
                     total_errors = int (length (errors (stats m))),
                     unique_errors = int (length (remdups (errors (stats m)))),
                     common_errors = remdups (errors (stats m))\<rparr>,
                  status_code_csv = rows,
                  endpoint_performance = perf\<rparr>]\<rparr>))))))"

subsection \<open>What the environment does during a session\<close>

text \<open>
  One iteration of the \<open>while\<close> loop as the environment plays it. \<open>clock\<close> is the reading
  of \<open>time.time()\<close> in the loop test and \<open>net\<close> the behaviour of the network for each
  address. A signal (\<open>SIGINT\<close> or \<open>SIGTERM\<close>, whose handler clears \<open>self.running\<close>) can
  be delivered at three kinds of places: in the \<open>for\<close> loop that creates the coroutines
  (\<open>Some k\<close>: when \<open>k\<close> of them have been created; with \<open>k\<close> beyond the sample, when the
  loop is over), while \<open>asyncio.gather\<close> is awaited, and while \<open>asyncio.sleep\<close> is
  awaited.
\<close>

record round_env =
  clock :: rat
  signal_dispatch :: "nat option"
  signal_gather :: bool
  signal_sleep :: bool
  net :: "string \<Rightarrow> probe"

text \<open>
  A session: the first clock reading, which addresses answer the connectivity check,
  whether a signal arrives during that check, and the script of the rounds.
\<close>

record session_env =
  clock0 :: rat
  reachable :: "string \<Rightarrow> bool"
  signal_connect :: bool
  rounds :: "round_env list"

subsection \<open>The connectivity prober\<close>

definition test_endpoint_connectivity :: "(string \<Rightarrow> bool) \<Rightarrow> string list \<Rightarrow> (string \<times> bool) list" where
  "test_endpoint_connectivity reach eps = fold (\<lambda>ep c. dict_set c ep (reach ep)) eps []"

subsection \<open>One round\<close>

text \<open>
  The \<open>for\<close> loop over the sample: before each coroutine is created the flag is read, and
  a cleared flag leaves the loop. The arguments are the flag, the place of the signal,
  the number of coroutines created so far and the addresses still to come; the result is
  the list of tasks and the flag after the loop.
\<close>

fun dispatch :: "bool \<Rightarrow> nat option \<Rightarrow> nat \<Rightarrow> string list \<Rightarrow> string list \<times> bool" where
  "dispatch run sig i [] = ([], run \<and> sig = None)"
| "dispatch run sig i (ep # eps) =
     (let run' = (run \<and> sig \<noteq> Some i)
      in if run' then (let (tasks, run'') = dispatch run' sig (Suc i) eps
                       in (ep # tasks, run''))
         else ([], run'))"

text \<open>
  \<open>asyncio.gather(*tasks, return_exceptions=True)\<close>: every coroutine runs to its end, and
  the results come in the order of the tasks. Each coroutine updates the statistics when
  its last await is over, without an await in between, so the updates happen one
  coroutine after the other, in the order in which the coroutines settle (for equal
  moments, in the order of the tasks).
\<close>

definition completion_order :: "(string \<Rightarrow> probe) \<Rightarrow> string list \<Rightarrow> string list" where
  "completion_order nt tasks = sort_key (\<lambda>ep. settled (nt ep)) tasks"

fun settle_all ::
  "(string \<Rightarrow> py_exception + json) \<Rightarrow> monitor \<Rightarrow> (string \<Rightarrow> probe) \<Rightarrow> string list \<Rightarrow> monitor" where
  "settle_all json_loads m nt [] = m"
| "settle_all json_loads m nt (ep # eps) =
     settle_all json_loads (snd (make_sample_request json_loads m ep (nt ep))) nt eps"

text \<open>
  The dictionary a coroutine returns is built from the address and the probe alone; the
  statistics it reads do not enter it. So the results are taken task by task, and the
  monitor after the gather is the one left by the updates in completion order.
\<close>

definition gather ::
  "(string \<Rightarrow> py_exception + json) \<Rightarrow> monitor \<Rightarrow> (string \<Rightarrow> probe) \<Rightarrow> string list \<Rightarrow> (py_exception + response_record) list \<times> monitor" where
  "gather json_loads m nt tasks =
     (map (\<lambda>ep. fst (make_sample_request json_loads m ep (nt ep))) tasks,
      settle_all json_loads m nt (completion_order nt tasks))"

text \<open>
  The loop over the results: a result that is a dictionary is appended to
  \<open>self.responses\<close> and written to the log; any other result is skipped.
\<close>

fun store_results :: "monitor \<Rightarrow> (py_exception + response_record) list \<Rightarrow> monitor" where
  "store_results m [] = m"
| "store_results m (Inr response_data # rs) =
     store_results (m\<lparr>responses := responses m @ [response_data],
                      log_file := log_file m @ [response_data]\<rparr>) rs"
| "store_results m (Inl e # rs) = store_results m rs"

text \<open>The tasks of a round: the \<open>for\<close> loop over the first five active addresses.\<close>

definition round_tasks :: "monitor \<Rightarrow> string list \<Rightarrow> round_env \<Rightarrow> string list \<times> bool" where
  "round_tasks m active_endpoints r =
     dispatch (running m) (signal_dispatch r) 0
       (take (min 5 (length active_endpoints)) active_endpoints)"

text \<open>The body of the \<open>while\<close> loop.\<close>

definition run_round ::
  "(string \<Rightarrow> py_exception + json) \<Rightarrow> monitor \<Rightarrow> string list \<Rightarrow> round_env \<Rightarrow> monitor" where
  "run_round json_loads m active_endpoints r =
     (let (tasks, run1) = round_tasks m active_endpoints r;
          m1 = m\<lparr>running := run1\<rparr>;
          m3 = (if tasks \<noteq> []
                then (let (results, m2) = gather json_loads m1 (net r) tasks
                      in store_results (m2\<lparr>running := (running m2 \<and> \<not> signal_gather r)\<rparr>)
                           results)
                else m1)
      in if running m3
         then m3\<lparr>sleep_calls := sleep_calls m3 @ [sample_interval m3],
                 running := \<not> signal_sleep r\<rparr>
         else m3)"

subsection \<open>The session: \<open>monitor_responses\<close>\<close>

text \<open>
  The \<open>while\<close> loop \<open>while time.time() < end_time and self.running\<close>. Each iteration takes
  the next entry of the script. A script that ends while the flag is still up does not say
  what the clock reads next: the result is \<open>None\<close>. With the flag down the test fails
  whatever the clock reads.
\<close>

fun monitor_loop ::
  "(string \<Rightarrow> py_exception + json) \<Rightarrow> monitor \<Rightarrow> string list \<Rightarrow> rat \<Rightarrow> round_env list \<Rightarrow> monitor option" where
  "monitor_loop json_loads m active_endpoints end_time [] =
     (if running m then None else Some m)"
| "monitor_loop json_loads m active_endpoints end_time (r # rs) =
     (if clock r < end_time \<and> running m
      then monitor_loop json_loads (run_round json_loads m active_endpoints r)
             active_endpoints end_time rs
      else Some m)"

text \<open>
  The whole coroutine. \<open>None\<close>: the script was too short to finish the loop;
  \<open>Some (Inl e)\<close>: the coroutine raised \<open>e\<close>; \<open>Some (Inr m)\<close>: it returned, leaving the
  monitor and its files as \<open>m\<close>.
\<close>

definition monitor_responses ::
  "(string \<Rightarrow> py_exception + json) \<Rightarrow> monitor \<Rightarrow> session_env \<Rightarrow> (py_exception + monitor) option" where
  "monitor_responses json_loads m env =
     (let m1 = m\<lparr>start_time := Some (clock0 env)\<rparr>;
          connectivity = test_endpoint_connectivity (reachable env) (endpoints m1);
          m2 = m1\<lparr>running := (running m1 \<and> \<not> signal_connect env)\<rparr>;
          active_endpoints = map fst (filter snd connectivity)
      in if active_endpoints = [] then Some (Inr m2)
         else
           (case monitor_loop json_loads m2 active_endpoints
                   (clock0 env + of_int (duration m2)) (rounds env) of
              None \<Rightarrow> None
            | Some m3 \<Rightarrow> Some (generate_reports m3)))"

subsection \<open>Notions used in the statements\<close>

text \<open>The dictionaries among the results of a gather, in order.\<close>

fun dicts_of :: "(py_exception + response_record) list \<Rightarrow> response_record list" where
  "dicts_of [] = []"
| "dicts_of (Inr r # rs) = r # dicts_of rs"
| "dicts_of (Inl e # rs) = dicts_of rs"

text \<open>
  A script entry that ends the loop: the clock reading of its loop test has reached the
  deadline (the test fails), or a signal is delivered in its round (the next test
  fails).
\<close>

definition stops :: "rat \<Rightarrow> round_env \<Rightarrow> bool" where
  "stops end_time r =
     (end_time \<le> clock r \<or> signal_dispatch r \<noteq> None \<or> signal_gather r \<or> signal_sleep r)"

subsection \<open>Example inputs\<close>

text \<open>
  A decoder that rejects every text, a probe that times out after five minutes, a probe
  that is answered with \<open>200 OK\<close>, a round without signals in which every probe is
  answered, a round in which a signal is delivered when one coroutine has been created, a
  session in which no address answers the connectivity check, and a session of one round
  that ends by its deadline.
\<close>

definition no_json :: "string \<Rightarrow> py_exception + json" where
  "no_json s = Inl (JSONDecodeError ''Expecting value'')"

definition timeout_probe :: probe where
  "timeout_probe =
     \<lparr>clock_start = 0, outcome = Raises AsyncioTimeoutError, clock_end = 0,
      clock_except1 = 300, clock_except2 = 300, iso_try = [], iso_except = [],
      settled = 300\<rparr>"

definition ok_probe :: probe where
  "ok_probe =
     \<lparr>clock_start = 0,
      outcome = Responds \<lparr>status = 200, reason = ''OK'', hdrs = [], body_read = Inr ''ok''\<rparr>,
      clock_end = 1, clock_except1 = 1, clock_except2 = 1, iso_try = [], iso_except = [],
      settled = 1\<rparr>"

definition quiet_round :: "rat \<Rightarrow> round_env" where
  "quiet_round t =
     \<lparr>clock = t, signal_dispatch = None, signal_gather = False, signal_sleep = False,
      net = (\<lambda>ep. ok_probe)\<rparr>"

definition unreachable_env :: session_env where
  "unreachable_env = \<lparr>clock0 = 0, reachable = (\<lambda>ep. False), signal_connect = False, rounds = []\<rparr>"

definition short_session :: session_env where
  "short_session =
     \<lparr>clock0 = 0, reachable = (\<lambda>ep. True), signal_connect = False,
      rounds = [quiet_round 1, quiet_round 61]\<rparr>"

definition interrupted_round :: round_env where
  "interrupted_round =
     \<lparr>clock = 1, signal_dispatch = Some 1, signal_gather = False, signal_sleep = False,
      net = (\<lambda>ep. ok_probe)\<rparr>"

section \<open>Properties\<close>

subsection \<open>Latency statistics\<close>

lemma py_min_eq_Min: "xs \<noteq> [] \<Longrightarrow> py_min xs = Inr (Min (set xs))"
proof (cases xs)
  case Nil then show "xs \<noteq> [] \<Longrightarrow> ?thesis" by simp
next
  case (Cons x ys)
  have "(\<lambda>y m::rat. if y < m then y else m) = min" by (intro ext) (simp add: min_def)
  then show ?thesis using Cons Min.set_eq_fold [of x ys] by simp
qed

lemma py_max_eq_Max: "xs \<noteq> [] \<Longrightarrow> py_max xs = Inr (Max (set xs))"
proof (cases xs)
  case Nil then show "xs \<noteq> [] \<Longrightarrow> ?thesis" by simp
next
  case (Cons x ys)
  have "(\<lambda>y m::rat. if m < y then y else m) = max" by (intro ext) (simp add: max_def)
  then show ?thesis using Cons Max.set_eq_fold [of x ys] by simp
qed



lemma percentile_index_less: "0 < n \<Longrightarrow> p < 100 \<Longrightarrow> percentile_index n p < n"
  unfolding percentile_index_def
proof -
  assume "0 < n" "p < 100"
  then have "n * p < n * 100" by simp
  then show "n * p div 100 < n" by (simp add: div_less_iff_less_mult mult.commute)
qed



text \<open>
  Claim C6, as stated: for the latencies \<open>[10, 20, 30, 40, 50]\<close> the median is 50, p95 is
  50 and p99 is 50. The computed median is not 50.
\<close>

theorem median_of_five_counterexample:
  "map_sum id (map_option median_ms) (compute_latency_stats [10, 20, 30, 40, 50]) \<noteq>
     Inr (Some 50)"
  by (simp add: compute_latency_stats_def py_index_def percentile_index_def py_truediv_def)

text \<open>
  Claim C6, amended: for the latencies \<open>[10, 20, 30, 40, 50]\<close> the median is 30 (the
  element at index 2), p95 is 50 and p99 is 50 (the element at index 4).
\<close>

theorem median_of_five:
  "compute_latency_stats [10, 20, 30, 40, 50] =
     Inr (Some \<lparr>min_ms = 10, max_ms = 50, mean_ms = 30, median_ms = 30,
                p95_ms = 50, p99_ms = 50\<rparr>) \<and>
   sort [10, 20, 30, 40, 50 :: rat] ! 2 = 30 \<and>
   sort [10, 20, 30, 40, 50 :: rat] ! 4 = 50 \<and>
   percentile_index 5 95 = 4 \<and> percentile_index 5 99 = 4"
  by (simp add: compute_latency_stats_def py_index_def percentile_index_def py_truediv_def)

subsection \<open>The request executor\<close>

lemma dict_total_set: "dict_total (dict_set d k v) = dict_total d - dict_get d k 0 + v"
  by (induction d) (auto simp: dict_total_def)

lemma dict_total_incr: "dict_total (dict_incr d k) = dict_total d + 1"
  by (simp add: dict_incr_def dict_total_set)

lemma sample_request_cases:
  obtains
    (success) response n where "outcome p = Responds response"
      "content_length_of (hdrs response) = Inr n"
      "snd (sample_request jl st ep p) =
         record_response st (status response) ((clock_end p - clock_start p) * 1000)"
      "\<exists>r. fst (sample_request jl st ep p) = Inr r \<and> status_code r = status response \<and>
           status_text r = reason response \<and> error r = None \<and> endpoint r = ep"
  | (timeout) "outcome p = Raises AsyncioTimeoutError"
      "sample_request jl st ep p =
         (Inr (error_data ep p 408 ''Request Timeout'' ''Request timed out'' ''timeout''),
          record_failure st ''timeout'')"
  | (failure) e where "e \<noteq> AsyncioTimeoutError"
      "outcome p = Raises e \<or>
       (\<exists>response. outcome p = Responds response \<and> content_length_of (hdrs response) = Inl e)"
      "sample_request jl st ep p =
         (Inr (error_data ep p 0 ''Connection Error'' (''Connection error: '' @ str_exc e)
                 (str_exc e)),
          record_failure st (str_exc e))"
proof (cases "outcome p")
  case (Raises e)
  then have t: "try_request jl st ep p = Inl e" by (simp add: try_request_def)
  show ?thesis
  proof (cases "e = AsyncioTimeoutError")
    case True
    then show ?thesis using timeout Raises t by (simp add: sample_request_def)
  next
    case False
    then show ?thesis using failure [of e] Raises t
      by (cases e) (simp_all add: sample_request_def)
  qed
next
  case (Responds response)
  show ?thesis
  proof (cases "content_length_of (hdrs response)")
    case (Inl e)
    then obtain msg where e: "e = ValueError msg"
      by (auto simp: content_length_of_def py_int_of_str_def Let_def split: option.splits)
    have t: "try_request jl st ep p = Inl e"
      using Responds Inl by (simp add: try_request_def Let_def split: prod.splits)
    show ?thesis using failure [of e] Responds Inl t e by (simp add: sample_request_def)
  next
    case (Inr n)
    show ?thesis using success [of response n] Responds Inr
      by (simp add: sample_request_def try_request_def Let_def split: prod.splits)
  qed
qed

lemma sample_request_Inr: "\<exists>r. fst (sample_request jl st ep p) = Inr r \<and> endpoint r = ep"
  by (cases rule: sample_request_cases [of p jl st ep]) (auto simp: error_data_def)

lemma record_response_fields:
  "total_requests (record_response st c l) = total_requests st + 1"
  "successful_requests (record_response st c l) + failed_requests (record_response st c l) =
     successful_requests st + failed_requests st + 1"
  "dict_total (status_codes (record_response st c l)) = dict_total (status_codes st) + 1"
  "response_times (record_response st c l) = response_times st @ [l]"
  "errors (record_response st c l) = errors st"
  by (simp_all add: record_response_def Let_def dict_total_incr)

lemma record_failure_fields:
  "total_requests (record_failure st e) = total_requests st + 1"
  "successful_requests (record_failure st e) = successful_requests st"
  "failed_requests (record_failure st e) = failed_requests st + 1"
  "status_codes (record_failure st e) = status_codes st"
  "response_times (record_failure st e) = response_times st"
  "errors (record_failure st e) = errors st @ [e]"
  by (simp_all add: record_failure_def)

lemma sample_request_total:
  "total_requests (snd (sample_request jl st ep p)) = total_requests st + 1"
  by (cases rule: sample_request_cases [of p jl st ep])
     (simp_all add: record_response_fields record_failure_fields)

lemma sample_request_balance:
  "successful_requests (snd (sample_request jl st ep p)) + failed_requests (snd (sample_request jl st ep p))
     = successful_requests st + failed_requests st + 1"
  by (cases rule: sample_request_cases [of p jl st ep])
     (simp_all add: record_response_fields record_failure_fields)

lemma sample_request_histogram:
  "dict_total (status_codes (snd (sample_request jl st ep p))) - int (length (response_times (snd (sample_request jl st ep p))))
     = dict_total (status_codes st) - int (length (response_times st))"
  by (cases rule: sample_request_cases [of p jl st ep])
     (simp_all add: record_response_fields record_failure_fields)

lemma sample_request_answered:
  "int (length (response_times (snd (sample_request jl st ep p)))) + int (length (errors (snd (sample_request jl st ep p))))
     = int (length (response_times st)) + int (length (errors st)) + 1"
  by (cases rule: sample_request_cases [of p jl st ep])
     (simp_all add: record_response_fields record_failure_fields)

lemma sample_request_effect:
  "snd (sample_request jl st ep p) =
     (case outcome p of
        Raises e \<Rightarrow>
          record_failure st (if e = AsyncioTimeoutError then ''timeout'' else str_exc e)
      | Responds response \<Rightarrow>
          (case content_length_of (hdrs response) of
             Inr n \<Rightarrow>
               record_response st (status response) ((clock_end p - clock_start p) * 1000)
           | Inl e \<Rightarrow> record_failure st (str_exc e)))"
proof (cases rule: sample_request_cases [of p jl st ep])
  case (success response n)
  then show ?thesis by simp
next
  case timeout
  then show ?thesis by simp
next
  case (failure e)
  then show ?thesis by auto
qed

lemma record_response_counters:
  "successful_requests (record_response st c l) =
     (if 200 \<le> c \<and> c < 400 then successful_requests st + 1 else successful_requests st)"
  "failed_requests (record_response st c l) =
     (if 200 \<le> c \<and> c < 400 then failed_requests st else failed_requests st + 1)"
  "status_codes (record_response st c l) = dict_incr (status_codes st) c"
  by (simp_all add: record_response_def Let_def)

lemma make_sample_request_eq:
  "make_sample_request jl m ep p =
     (fst (sample_request jl (stats m) ep p), m\<lparr>stats := snd (sample_request jl (stats m) ep p)\<rparr>)"
  by (simp add: make_sample_request_def split: prod.splits)

text \<open>
  Claim C3. For every address and every behaviour of the network, \<open>make_sample_request\<close>
  returns a dictionary and raises nothing. The dictionary falls in exactly one class,
  decided by the block that builds it. When \<open>session.request\<close> raises
  \<open>asyncio.TimeoutError\<close>: status code 408, status text \<open>Request Timeout\<close>, error
  \<open>timeout\<close>. When anything else is raised in the \<open>try\<close> block (by \<open>session.request\<close>, or
  by \<open>int\<close> on the \<open>Content-Length\<close> header): status code 0, status text
  \<open>Connection Error\<close>, error the message of the exception. Otherwise: the status code and
  reason of the response, and no error key. An exception while the body is read does not
  change the class: the inner handler turns it into a body of type \<open>error\<close>.
\<close>

theorem make_sample_request_never_raises:
  "\<exists>r. fst (make_sample_request jl m ep p) = Inr r \<and>
     (case outcome p of
        Raises e \<Rightarrow>
          (if e = AsyncioTimeoutError
           then status_code r = 408 \<and> status_text r = ''Request Timeout'' \<and>
                error r = Some ''timeout''
           else status_code r = 0 \<and> status_text r = ''Connection Error'' \<and>
                error r = Some (str_exc e))
      | Responds response \<Rightarrow>
          (case content_length_of (hdrs response) of
             Inr n \<Rightarrow> status_code r = status response \<and> status_text r = reason response \<and>
                      error r = None
           | Inl e \<Rightarrow> status_code r = 0 \<and> status_text r = ''Connection Error'' \<and>
                      error r = Some (str_exc e)))"
proof (cases rule: sample_request_cases [of p jl "stats m" ep])
  case (success response n)
  then show ?thesis by (auto simp: make_sample_request_eq)
next
  case timeout
  then show ?thesis by (simp add: make_sample_request_eq error_data_def)
next
  case (failure e)
  then show ?thesis by (auto simp: make_sample_request_eq error_data_def)
qed

lemma probe_counts_once:
  "let m' = snd (make_sample_request jl m ep p) in
     total_requests (stats m') = total_requests (stats m) + 1 \<and>
     (\<exists>r. fst (make_sample_request jl m ep p) = Inr r \<and>
        (if 200 \<le> status_code r \<and> status_code r < 400
         then successful_requests (stats m') = successful_requests (stats m) + 1 \<and>
              failed_requests (stats m') = failed_requests (stats m)
         else successful_requests (stats m') = successful_requests (stats m) \<and>
              failed_requests (stats m') = failed_requests (stats m) + 1))"
proof (cases rule: sample_request_cases [of p jl "stats m" ep])
  case (success response n)
  then obtain r where r: "fst (sample_request jl (stats m) ep p) = Inr r"
      "status_code r = status response" by blast
  have "successful_requests (record_response st c l) =
          (if 200 \<le> c \<and> c < 400 then successful_requests st + 1 else successful_requests st)"
       "failed_requests (record_response st c l) =
          (if 200 \<le> c \<and> c < 400 then failed_requests st else failed_requests st + 1)"
    for st c l by (simp_all add: record_response_def Let_def)
  then show ?thesis using success(3) r
    by (simp add: make_sample_request_eq Let_def record_response_fields)
next
  case timeout
  then show ?thesis by (simp add: make_sample_request_eq error_data_def record_failure_fields)
next
  case (failure e)
  then show ?thesis by (simp add: make_sample_request_eq error_data_def record_failure_fields)
qed

lemma try_request_result:
  "map_sum id fst (try_request jl st ep p) = map_sum id fst (try_request jl st' ep p)"
proof (cases "outcome p")
  case (Raises e)
  then show ?thesis by (simp add: try_request_def)
next
  case (Responds response)
  then show ?thesis
    by (cases "content_length_of (hdrs response)")
       (simp_all add: try_request_def Let_def split: prod.splits)
qed

lemma fst_sample_request:
  "fst (sample_request jl st ep p) =
     (case map_sum id fst (try_request jl st ep p) of
        Inr d \<Rightarrow> Inr d
      | Inl e \<Rightarrow>
          (if e = AsyncioTimeoutError
           then Inr (error_data ep p 408 ''Request Timeout'' ''Request timed out'' ''timeout'')
           else Inr (error_data ep p 0 ''Connection Error''
                       (''Connection error: '' @ str_exc e) (str_exc e))))"
proof (cases "try_request jl st ep p")
  case (Inl e)
  then show ?thesis by (cases e) (simp_all add: sample_request_def)
next
  case (Inr x)
  then show ?thesis by (cases x) (simp add: sample_request_def)
qed

lemma sample_request_result:
  "fst (sample_request jl st ep p) = fst (sample_request jl st' ep p)"
  by (simp only: fst_sample_request try_request_result [of jl st ep p st'])

lemma gather_Nil: "gather jl m nt [] = ([], m)"
  by (simp add: gather_def completion_order_def)

lemma settle_all_fields:
  "responses (settle_all jl m nt eps) = responses m"
  "log_file (settle_all jl m nt eps) = log_file m"
  "report_runs (settle_all jl m nt eps) = report_runs m"
  "running (settle_all jl m nt eps) = running m"
  "start_time (settle_all jl m nt eps) = start_time m"
  "sleep_calls (settle_all jl m nt eps) = sleep_calls m"
  "sample_interval (settle_all jl m nt eps) = sample_interval m"
  "duration (settle_all jl m nt eps) = duration m"
  "endpoints (settle_all jl m nt eps) = endpoints m"
  by (induction eps arbitrary: m; simp add: make_sample_request_eq)+

lemma settle_all_total:
  "total_requests (stats (settle_all jl m nt eps)) = total_requests (stats m) + int (length eps)"
  by (induction eps arbitrary: m)
     (simp_all add: make_sample_request_eq sample_request_total)

lemma settle_all_balance:
  "successful_requests (stats (settle_all jl m nt eps)) +
   failed_requests (stats (settle_all jl m nt eps))
    = successful_requests (stats m) + failed_requests (stats m) + int (length eps)"
proof (induction eps arbitrary: m)
  case Nil
  then show ?case by simp
next
  case (Cons ep eps)
  show ?case
    using Cons [of "m\<lparr>stats := snd (sample_request jl (stats m) ep (nt ep))\<rparr>"]
          sample_request_balance [of jl "stats m" ep "nt ep"]
    by (simp add: make_sample_request_eq)
qed

lemma settle_all_histogram:
  "dict_total (status_codes (stats (settle_all jl m nt eps))) -
   int (length (response_times (stats (settle_all jl m nt eps))))
    = dict_total (status_codes (stats m)) - int (length (response_times (stats m)))"
proof (induction eps arbitrary: m)
  case Nil
  then show ?case by simp
next
  case (Cons ep eps)
  show ?case
    using Cons [of "m\<lparr>stats := snd (sample_request jl (stats m) ep (nt ep))\<rparr>"]
          sample_request_histogram [of jl "stats m" ep "nt ep"]
    by (simp add: make_sample_request_eq)
qed

lemma settle_all_answered:
  "int (length (response_times (stats (settle_all jl m nt eps)))) +
   int (length (errors (stats (settle_all jl m nt eps))))
    = int (length (response_times (stats m))) + int (length (errors (stats m))) +
      int (length eps)"
proof (induction eps arbitrary: m)
  case Nil
  then show ?case by simp
next
  case (Cons ep eps)
  show ?case
    using Cons [of "m\<lparr>stats := snd (sample_request jl (stats m) ep (nt ep))\<rparr>"]
          sample_request_answered [of jl "stats m" ep "nt ep"]
    by (simp add: make_sample_request_eq)
qed

lemma settle_all_stats_only:
  "stats m = stats m' \<Longrightarrow> stats (settle_all jl m nt eps) = stats (settle_all jl m' nt eps)"
proof (induction eps arbitrary: m m')
  case Nil
  then show ?case by simp
next
  case (Cons ep eps)
  show ?case
    using Cons.prems
      Cons.IH [of "m\<lparr>stats := snd (sample_request jl (stats m) ep (nt ep))\<rparr>"
                  "m'\<lparr>stats := snd (sample_request jl (stats m') ep (nt ep))\<rparr>"]
    by (simp add: make_sample_request_eq)
qed

lemma length_completion_order: "length (completion_order nt tasks) = length tasks"
  by (simp add: completion_order_def)

lemma gather_fields:
  "responses (snd (gather jl m nt tasks)) = responses m"
  "log_file (snd (gather jl m nt tasks)) = log_file m"
  "report_runs (snd (gather jl m nt tasks)) = report_runs m"
  "running (snd (gather jl m nt tasks)) = running m"
  "start_time (snd (gather jl m nt tasks)) = start_time m"
  "sleep_calls (snd (gather jl m nt tasks)) = sleep_calls m"
  "sample_interval (snd (gather jl m nt tasks)) = sample_interval m"
  "duration (snd (gather jl m nt tasks)) = duration m"
  "endpoints (snd (gather jl m nt tasks)) = endpoints m"
  by (simp_all add: gather_def settle_all_fields)

lemma gather_results:
  "list_all2 (\<lambda>res ep. \<exists>r. res = Inr r \<and> endpoint r = ep) (fst (gather jl m nt tasks)) tasks"
proof -
  have "\<exists>r. fst (make_sample_request jl m ep (nt ep)) = Inr r \<and> endpoint r = ep" for ep
    using sample_request_Inr [of jl "stats m" ep "nt ep"] by (simp add: make_sample_request_eq)
  then show ?thesis
    by (simp add: gather_def list_all2_map1 list_all2_same)
qed

lemma gather_total:
  "total_requests (stats (snd (gather jl m nt tasks))) = total_requests (stats m) + int (length tasks)"
  by (simp add: gather_def settle_all_total length_completion_order)

lemma gather_balance:
  "successful_requests (stats (snd (gather jl m nt tasks))) + failed_requests (stats (snd (gather jl m nt tasks)))
    = successful_requests (stats m) + failed_requests (stats m) + int (length tasks)"
  by (simp add: gather_def settle_all_balance length_completion_order)

lemma gather_histogram:
  "dict_total (status_codes (stats (snd (gather jl m nt tasks)))) - int (length (response_times (stats (snd (gather jl m nt tasks)))))
    = dict_total (status_codes (stats m)) - int (length (response_times (stats m)))"
  by (simp add: gather_def settle_all_histogram)

lemma gather_answered:
  "int (length (response_times (stats (snd (gather jl m nt tasks))))) + int (length (errors (stats (snd (gather jl m nt tasks)))))
    = int (length (response_times (stats m))) + int (length (errors (stats m))) + int (length tasks)"
  by (simp add: gather_def settle_all_answered length_completion_order)

lemma dispatch_False: "dispatch False sig i eps = ([], False)"
  by (cases eps) simp_all

lemma dispatch_None: "dispatch True None i eps = (eps, True)"
  by (induction eps arbitrary: i) simp_all

lemma dispatch_Some: "i \<le> k \<Longrightarrow> dispatch True (Some k) i eps = (take (k - i) eps, False)"
proof (induction eps arbitrary: i)
  case Nil
  then show ?case by simp
next
  case (Cons ep eps)
  show ?case
  proof (cases "k = i")
    case True
    then show ?thesis by simp
  next
    case False
    then have "Suc i \<le> k" using Cons.prems by simp
    then have "dispatch True (Some k) (Suc i) eps = (take (k - Suc i) eps, False)"
      by (rule Cons.IH)
    moreover have "take (k - i) (ep # eps) = ep # take (k - Suc i) eps"
      using \<open>Suc i \<le> k\<close> by (simp add: take_Cons')
    ultimately show ?thesis using False by auto
  qed
qed

lemma round_tasks_eq:
  "round_tasks m act r =
     (if running m
      then (case signal_dispatch r of
              None \<Rightarrow> (take (min 5 (length act)) act, True)
            | Some k \<Rightarrow> (take k (take (min 5 (length act)) act), False))
      else ([], False))"
  by (simp add: round_tasks_def dispatch_False dispatch_None dispatch_Some split: option.splits)

lemma store_results_eq:
  "store_results m results =
     m\<lparr>responses := responses m @ dicts_of results, log_file := log_file m @ dicts_of results\<rparr>"
  by (induction m results rule: store_results.induct) simp_all

lemma dicts_of_all_Inr:
  "list_all2 (\<lambda>res ep. \<exists>r. res = Inr r \<and> endpoint r = ep) results tasks \<Longrightarrow>
     length (dicts_of results) = length tasks \<and> map endpoint (dicts_of results) = tasks"
  by (induction results tasks rule: list_all2_induct) auto

lemma gather_stats_only:
  "stats m = stats m' \<Longrightarrow>
     fst (gather jl m nt tasks) = fst (gather jl m' nt tasks) \<and>
     stats (snd (gather jl m nt tasks)) = stats (snd (gather jl m' nt tasks))"
  using settle_all_stats_only [of m m' jl nt "completion_order nt tasks"]
  by (simp add: gather_def make_sample_request_eq)

lemma gather_snd:
  "snd (gather jl m nt tasks) = m\<lparr>stats := stats (snd (gather jl m nt tasks))\<rparr>"
  by (rule monitor.equality) (simp_all add: gather_fields)

lemma gather_running:
  "gather jl (m\<lparr>running := b\<rparr>) nt tasks =
     (fst (gather jl m nt tasks), (snd (gather jl m nt tasks))\<lparr>running := b\<rparr>)"
proof -
  have s: "stats (m\<lparr>running := b\<rparr>) = stats m" by simp
  have "snd (gather jl (m\<lparr>running := b\<rparr>) nt tasks) =
          m\<lparr>running := b, stats := stats (snd (gather jl m nt tasks))\<rparr>"
    using gather_stats_only [OF s, of jl nt tasks]
    by (intro monitor.equality) (simp_all add: gather_fields)
  also have "\<dots> = (snd (gather jl m nt tasks))\<lparr>running := b\<rparr>"
    by (rule monitor.equality) (simp_all add: gather_fields)
  finally show ?thesis using gather_stats_only [OF s, of jl nt tasks]
    by (simp add: prod_eq_iff)
qed

lemma run_round_eq:
  "run_round jl m act r =
     (let tasks = fst (round_tasks m act r);
          run1 = snd (round_tasks m act r);
          g = gather jl m (net r) tasks;
          recs = dicts_of (fst g);
          run3 = (if tasks \<noteq> [] then run1 \<and> \<not> signal_gather r else run1)
      in m\<lparr>stats := stats (snd g),
           responses := responses m @ recs,
           log_file := log_file m @ recs,
           sleep_calls := sleep_calls m @ (if run3 then [sample_interval m] else []),
           running := (run3 \<and> \<not> signal_sleep r)\<rparr>)"
proof (cases "fst (round_tasks m act r) = []")
  case True
  then show ?thesis
    by (intro monitor.equality) (auto simp: run_round_def Let_def case_prod_beta gather_Nil)
next
  case False
  show ?thesis using False
    by (intro monitor.equality)
       (auto simp: run_round_def Let_def case_prod_beta gather_running store_results_eq
          gather_fields)
qed

lemma round_records:
  "length (dicts_of (fst (gather jl m nt tasks))) = length tasks \<and>
   map endpoint (dicts_of (fst (gather jl m nt tasks))) = tasks"
  using gather_results [of jl m nt tasks] by (rule dicts_of_all_Inr)

subsection \<open>Rounds\<close>

text \<open>
  Claim C2. In every round, whatever the outcomes of the probes, the log grows by exactly
  one line per coroutine created in the round: the old lines stay, the new lines are the
  records of the dispatched addresses in order of dispatch, and the request counter grows
  by the same number.
\<close>

theorem round_logs_every_dispatched_probe:
  "let tasks = fst (round_tasks m act r); m' = run_round jl m act r in
     length (log_file m') = length (log_file m) + length tasks \<and>
     take (length (log_file m)) (log_file m') = log_file m \<and>
     map endpoint (drop (length (log_file m)) (log_file m')) = tasks \<and>
     total_requests (stats m') = total_requests (stats m) + int (length tasks)"
  by (simp add: run_round_eq Let_def round_records gather_total)

text \<open>
  Claim C9, amended. Within a round the flag is read before each coroutine is created (a
  signal delivered when \<open>k\<close> coroutines exist ends the \<open>for\<close> loop, and the round runs
  with these \<open>k\<close>) and once after the gather (a flag cleared by then skips the sleep).
  Every coroutine created is run to its end and its record is logged: neither the log nor
  the statistics of the round depend on a signal delivered during the gather or the
  sleep. When the sleep is reached, \<open>asyncio.sleep\<close> is called with the whole sample
  interval; a signal delivered during it only clears the flag, which the next loop test
  reads.
\<close>

theorem cancellation_points:
  "let sample = take (min 5 (length act)) act;
       tasks = fst (round_tasks m act r);
       m' = run_round jl m act r
   in tasks = (if running m
               then (case signal_dispatch r of None \<Rightarrow> sample | Some k \<Rightarrow> take k sample)
               else []) \<and>
      map endpoint (drop (length (log_file m)) (log_file m')) = tasks \<and>
      log_file m' = log_file (run_round jl m act (r\<lparr>signal_gather := g, signal_sleep := s\<rparr>)) \<and>
      stats m' = stats (run_round jl m act (r\<lparr>signal_gather := g, signal_sleep := s\<rparr>)) \<and>
      sleep_calls m' =
        sleep_calls m @
          (if running m \<and> signal_dispatch r = None \<and> (sample = [] \<or> \<not> signal_gather r)
           then [sample_interval m] else []) \<and>
      running m' =
        (running m \<and> signal_dispatch r = None \<and> (sample = [] \<or> \<not> signal_gather r) \<and>
         \<not> signal_sleep r)"
  apply (simp add: run_round_eq Let_def round_records)
  apply (simp add: round_tasks_eq split: option.splits)
  done

lemma compute_latency_stats_returns: "\<exists>l. compute_latency_stats rts = Inr l"
proof (cases "rts = []")
  case True
  then show ?thesis by (simp add: compute_latency_stats_def)
next
  case False
  define times where "times = sort rts"
  have len: "length times = length rts" by (simp add: times_def)
  have ne: "times \<noteq> []" using False len by (metis length_0_conv)
  then have n: "0 < length times" by simp
  have "percentile_index (length times) 95 < length times"
       "percentile_index (length times) 99 < length times"
       "length times div 2 < length times"
    using n by (simp_all add: percentile_index_less)
  then show ?thesis using False ne n
    by (simp add: compute_latency_stats_def Let_def py_index_def py_truediv_def
          py_min_eq_Min py_max_eq_Max times_def [symmetric])
qed

lemma csv_rows_returns:
  "\<exists>rows. csv_rows tot items = Inr rows \<and> length rows = length items \<and>
      (tot \<le> 0 \<longrightarrow> list_all (\<lambda>row. snd (snd row) = 0) rows)"
proof (induction items)
  case Nil
  then show ?case by simp
next
  case (Cons item items)
  obtain code cnt where item: "item = (code, cnt)" by (cases item)
  from Cons obtain rows where "csv_rows tot items = Inr rows" "length rows = length items"
    "tot \<le> 0 \<longrightarrow> list_all (\<lambda>row. snd (snd row) = 0) rows" by blast
  then show ?case using item by (simp add: py_truediv_def)
qed

lemma average_all_returns: "\<exists>d'. average_all d = Inr d'"
proof (induction d)
  case Nil
  then show ?case by simp
next
  case (Cons x d)
  obtain ep e where x: "x = (ep, e)" by (cases x)
  from Cons obtain d' where "average_all d = Inr d'" by blast
  then show ?case using x by (simp add: py_truediv_def)
qed

lemma success_rate_returns:
  "py_truediv a (of_int (max 1 t)) = Inr (a / of_int (max 1 t))"
  by (simp add: py_truediv_def max_def)

lemma generate_reports_returns:
  assumes "start_time m = Some t"
  shows "\<exists>rep. generate_reports m = Inr (m\<lparr>report_runs := report_runs m @ [rep]\<rparr>)"
proof -
  obtain lat where lat: "compute_latency_stats (response_times (stats m)) = Inr lat"
    using compute_latency_stats_returns by blast
  obtain rows where rows: "csv_rows (dict_total (status_codes (stats m)))
      (sort_key fst (status_codes (stats m))) = Inr rows"
    using csv_rows_returns by blast
  obtain perf where perf: "average_all (fold (\<lambda>r d. add_response d r) (responses m) []) = Inr perf"
    using average_all_returns by blast
  show ?thesis
    using assms lat rows perf
    by (simp add: generate_reports_def fromtimestamp_def success_rate_returns) blast
qed

lemma run_round_fields:
  "start_time (run_round jl m act r) = start_time m"
  "report_runs (run_round jl m act r) = report_runs m"
  "duration (run_round jl m act r) = duration m"
  "sample_interval (run_round jl m act r) = sample_interval m"
  "endpoints (run_round jl m act r) = endpoints m"
  by (simp_all add: run_round_eq Let_def)

lemma monitor_loop_fields:
  "monitor_loop jl m act end_time rs = Some m' \<Longrightarrow>
     start_time m' = start_time m \<and> report_runs m' = report_runs m"
proof (induction rs arbitrary: m)
  case Nil
  then show ?case by (simp split: if_splits)
next
  case (Cons r rs)
  show ?case
  proof (cases "clock r < end_time \<and> running m")
    case True
    then have "monitor_loop jl (run_round jl m act r) act end_time rs = Some m'"
      using Cons.prems by simp
    then show ?thesis using Cons.IH by (simp add: run_round_fields)
  next
    case False
    then show ?thesis using Cons.prems by auto
  qed
qed

lemma run_round_cancelled:
  assumes "act \<noteq> []" "signal_dispatch r \<noteq> None \<or> signal_gather r \<or> signal_sleep r"
  shows "\<not> running (run_round jl m act r)"
proof -
  have ne: "(min 5 (length act) = 0) = False" using assms(1) by (cases act) simp_all
  show ?thesis using assms
    by (auto simp: run_round_eq Let_def round_tasks_eq ne split: option.splits)
qed

lemma monitor_loop_returns:
  assumes "act \<noteq> []"
  shows "\<not> running m \<or> list_ex (stops end_time) rs \<Longrightarrow>
           \<exists>m'. monitor_loop jl m act end_time rs = Some m'"
proof (induction rs arbitrary: m)
  case Nil
  then show ?case by simp
next
  case (Cons r rs)
  show ?case
  proof (cases "clock r < end_time \<and> running m")
    case False
    then show ?thesis by auto
  next
    case True
    have "\<not> running (run_round jl m act r) \<or> list_ex (stops end_time) rs"
    proof (cases "stops end_time r")
      case True
      then have "signal_dispatch r \<noteq> None \<or> signal_gather r \<or> signal_sleep r"
        using \<open>clock r < end_time \<and> running m\<close> by (auto simp: stops_def)
      then show ?thesis using run_round_cancelled [OF assms] by blast
    next
      case False
      then show ?thesis using Cons.prems True by simp
    qed
    then show ?thesis using Cons.IH True by simp
  qed
qed

lemma dict_set_entries:
  "set (dict_set c k v) \<subseteq> insert (k, v) (set c) \<and> (k, v) \<in> set (dict_set c k v)"
  by (induction c) (auto split: if_splits)

lemma connectivity_fold:
  "(\<exists>kv \<in> set (fold (\<lambda>ep c. dict_set c ep (reach ep)) eps c). snd kv) \<longleftrightarrow>
     (\<exists>kv \<in> set c. snd kv) \<or> (\<exists>ep \<in> set eps. reach ep)"
  if "\<And>k v. (k, v) \<in> set c \<Longrightarrow> v = reach k"
  using that
proof (induction eps arbitrary: c)
  case Nil
  then show ?case by simp
next
  case (Cons ep eps)
  let ?c = "dict_set c ep (reach ep)"
  have inv: "\<And>k v. (k, v) \<in> set ?c \<Longrightarrow> v = reach k"
    using Cons.prems dict_set_entries [of c ep "reach ep"] by auto
  have step: "(\<exists>kv \<in> set ?c. snd kv) \<longleftrightarrow> (\<exists>kv \<in> set c. snd kv) \<or> reach ep"
  proof
    assume "\<exists>kv \<in> set ?c. snd kv"
    then obtain k v where kv: "(k, v) \<in> set ?c" "v" by auto
    then have "(k, v) \<in> set c \<or> (k = ep \<and> v = reach ep)"
      using dict_set_entries [of c ep "reach ep"] by auto
    then show "(\<exists>kv \<in> set c. snd kv) \<or> reach ep" using kv by force
  next
    assume a: "(\<exists>kv \<in> set c. snd kv) \<or> reach ep"
    show "\<exists>kv \<in> set ?c. snd kv"
    proof (cases "reach ep")
      case True
      then show ?thesis using dict_set_entries [of c ep "reach ep"] by force
    next
      case False
      then obtain k v where kv: "(k, v) \<in> set c" "v" using a by auto
      then have "v = reach k" using Cons.prems by blast
      then have "k \<noteq> ep" using False kv by auto
      have "(k, v) \<in> set ?c" using kv(1) \<open>k \<noteq> ep\<close> by (induction c) auto
      then show ?thesis using kv(2) by force
    qed
  qed
  show ?case using Cons.IH [of ?c, OF inv] step by auto
qed

lemma active_endpoints_empty:
  "map fst (filter snd (test_endpoint_connectivity reach eps)) = [] \<longleftrightarrow> \<not> list_ex reach eps"
proof -
  have "(\<exists>kv \<in> set (test_endpoint_connectivity reach eps). snd kv) \<longleftrightarrow> (\<exists>ep \<in> set eps. reach ep)"
    unfolding test_endpoint_connectivity_def using connectivity_fold [of "[]" reach eps] by simp
  then show ?thesis by (auto simp: filter_empty_conv list_ex_iff)
qed

subsection \<open>Sessions\<close>

text \<open>
  Claim C1, amended. When at least one address answers the connectivity check, a session
  that returns has run \<open>generate_reports\<close> exactly once (one report is added, and nothing
  is raised), and it does return whenever the script holds a deadline reading or a
  signal: these are the exits by deadline and by cancellation. When no address answers,
  the session returns without running \<open>generate_reports\<close>: no report is written, and
  the log and the statistics are untouched.
\<close>

theorem report_on_loop_exit:
  "(list_ex (reachable env) (endpoints m) \<longrightarrow>
      (\<forall>res. monitor_responses jl m env = Some res \<longrightarrow>
         (\<exists>m' rep. res = Inr m' \<and> report_runs m' = report_runs m @ [rep])) \<and>
      (signal_connect env \<or> list_ex (stops (clock0 env + of_int (duration m))) (rounds env) \<longrightarrow>
         (\<exists>m' rep. monitor_responses jl m env = Some (Inr m') \<and>
            report_runs m' = report_runs m @ [rep]))) \<and>
   (\<not> list_ex (reachable env) (endpoints m) \<longrightarrow>
      (\<exists>m'. monitor_responses jl m env = Some (Inr m') \<and> report_runs m' = report_runs m \<and>
         log_file m' = log_file m \<and> stats m' = stats m))"
proof (cases "list_ex (reachable env) (endpoints m)")
  case False
  then show ?thesis
    using active_endpoints_empty [of "reachable env" "endpoints m"]
    by (simp add: monitor_responses_def Let_def)
next
  case True
  define act where "act = map fst (filter snd (test_endpoint_connectivity (reachable env) (endpoints m)))"
  define m2 where "m2 = m\<lparr>start_time := Some (clock0 env), running := (running m \<and> \<not> signal_connect env)\<rparr>"
  define end_time where "end_time = clock0 env + of_int (duration m)"
  have act: "act \<noteq> []"
    using True active_endpoints_empty [of "reachable env" "endpoints m"] by (simp add: act_def)
  have mr: "monitor_responses jl m env =
      (case monitor_loop jl m2 act end_time (rounds env) of
         None \<Rightarrow> None | Some m3 \<Rightarrow> Some (generate_reports m3))"
    using act by (simp add: monitor_responses_def Let_def act_def m2_def end_time_def)
  have fin: "\<exists>m' rep. generate_reports m3 = Inr m' \<and> report_runs m' = report_runs m @ [rep]"
    if "monitor_loop jl m2 act end_time (rounds env) = Some m3" for m3
  proof -
    have f: "start_time m3 = Some (clock0 env)" "report_runs m3 = report_runs m"
      using monitor_loop_fields [OF that] by (simp_all add: m2_def)
    from generate_reports_returns [OF f(1)] obtain rep where
      "generate_reports m3 = Inr (m3\<lparr>report_runs := report_runs m3 @ [rep]\<rparr>)" by blast
    then show ?thesis using f(2) by simp
  qed
  have a: "\<exists>m' rep. res = Inr m' \<and> report_runs m' = report_runs m @ [rep]"
    if "monitor_responses jl m env = Some res" for res
    using that fin unfolding mr by (auto split: option.splits)
  have b: "\<exists>m' rep. monitor_responses jl m env = Some (Inr m') \<and>
            report_runs m' = report_runs m @ [rep]"
    if "signal_connect env \<or> list_ex (stops end_time) (rounds env)"
  proof -
    have "\<not> running m2 \<or> list_ex (stops end_time) (rounds env)"
      using that by (auto simp: m2_def)
    from monitor_loop_returns [OF act this] obtain m3 where
      m3: "monitor_loop jl m2 act end_time (rounds env) = Some m3" by blast
    then show ?thesis using fin [OF m3] unfolding mr by auto
  qed
  show ?thesis using True a b unfolding end_time_def by blast
qed

text \<open>
  The hypotheses hold for the one-round session that ends by its deadline, and for the
  session without reachable address.
\<close>

theorem report_on_loop_exit_witness:
  "(\<exists>m' rep. monitor_responses no_json (init_monitor 60 2) short_session = Some (Inr m') \<and>
       report_runs m' = report_runs (init_monitor 60 2) @ [rep]) \<and>
   (\<exists>m'. monitor_responses no_json (init_monitor 60 2) unreachable_env = Some (Inr m') \<and>
       report_runs m' = report_runs (init_monitor 60 2) \<and>
       log_file m' = log_file (init_monitor 60 2) \<and> stats m' = stats (init_monitor 60 2))"
proof -
  have r: "list_ex (reachable short_session) (endpoints (init_monitor 60 2))"
    by (simp add: short_session_def init_monitor_def)
  have s: "list_ex (stops (clock0 short_session + of_int (duration (init_monitor 60 2))))
             (rounds short_session)"
    by (simp add: short_session_def init_monitor_def stops_def quiet_round_def)
  have u: "\<not> list_ex (reachable unreachable_env) (endpoints (init_monitor 60 2))"
    by (simp add: unreachable_env_def init_monitor_def)
  show ?thesis
    using report_on_loop_exit [of short_session "init_monitor 60 2" no_json]
          report_on_loop_exit [of unreachable_env "init_monitor 60 2" no_json] r s u
    by blast
qed

text \<open>
  Claim C1, as stated: the session whose connectivity check finds no address still
  produces the reports. It returns with no report written.
\<close>

theorem no_report_without_endpoint_counterexample:
  "map_option (map_sum id report_runs)
     (monitor_responses no_json (init_monitor 60 2) unreachable_env) = Some (Inr [])"
  by (simp add: monitor_responses_def Let_def unreachable_env_def init_monitor_def
        test_endpoint_connectivity_def)

subsection \<open>The latency statistics of the summary\<close>



subsection \<open>The report of an empty session\<close>

text \<open>
  Claim C7. When the session has started and holds no latency, no request and an empty
  histogram total, \<open>generate_reports\<close> raises nothing and adds one report, in which the
  latency statistics are the empty value, the success rate is 0 and every percentage of
  the status code table is 0.
\<close>

theorem empty_session_report:
  assumes "start_time m = Some t"
      and "response_times (stats m) = []"
      and "total_requests (stats m) = 0"
      and "successful_requests (stats m) = 0"
      and "dict_total (status_codes (stats m)) = 0"
  shows "\<exists>rep. generate_reports m = Inr (m\<lparr>report_runs := report_runs m @ [rep]\<rparr>) \<and>
           latency_statistics (response_summary rep) = None \<and>
           success_rate_percent (response_summary rep) = 0 \<and>
           list_all (\<lambda>row. snd (snd row) = 0) (status_code_csv rep)"
proof -
  obtain rows where rows: "csv_rows 0 (sort_key fst (status_codes (stats m))) = Inr rows"
      "list_all (\<lambda>row. snd (snd row) = 0) rows"
    using csv_rows_returns [of 0 "sort_key fst (status_codes (stats m))"] by auto
  obtain perf where perf: "average_all (fold (\<lambda>r d. add_response d r) (responses m) []) = Inr perf"
    using average_all_returns by blast
  show ?thesis
    using assms rows perf
    apply (simp add: generate_reports_def fromtimestamp_def compute_latency_stats_def
        py_truediv_def)
    apply (rule exI, rule conjI, rule refl)
    apply simp
    done
qed

text \<open>The hypotheses hold for a monitor that has just started its session.\<close>

theorem empty_session_report_witness:
  "start_time ((init_monitor 60 2)\<lparr>start_time := Some 0\<rparr>) = Some 0 \<and>
   response_times (stats ((init_monitor 60 2)\<lparr>start_time := Some 0\<rparr>)) = [] \<and>
   total_requests (stats ((init_monitor 60 2)\<lparr>start_time := Some 0\<rparr>)) = 0 \<and>
   successful_requests (stats ((init_monitor 60 2)\<lparr>start_time := Some 0\<rparr>)) = 0 \<and>
   dict_total (status_codes (stats ((init_monitor 60 2)\<lparr>start_time := Some 0\<rparr>))) = 0 \<and>
   (\<exists>rep. generate_reports ((init_monitor 60 2)\<lparr>start_time := Some 0\<rparr>) =
            Inr ((init_monitor 60 2)\<lparr>start_time := Some 0, report_runs := [rep]\<rparr>) \<and>
          latency_statistics (response_summary rep) = None \<and>
          success_rate_percent (response_summary rep) = 0 \<and>
          list_all (\<lambda>row. snd (snd row) = 0) (status_code_csv rep))"
  using empty_session_report [of "(init_monitor 60 2)\<lparr>start_time := Some 0\<rparr>" 0]
  by (simp add: init_monitor_def init_stats_def dict_total_def)

subsection \<open>What a probe does to the statistics\<close>

text \<open>
  Claim C4, amended. The histogram and the latency list record the probes whose response
  was received and recorded, not all probes. A probe whose record is built by the \<open>try\<close>
  block adds its status code to the histogram (whose total rises by one) and its latency
  to the latency list, and leaves the error list alone. A probe that times out or fails
  otherwise raises \<open>total_requests\<close> and \<open>failed_requests\<close> by one and appends its message
  to the error list; it adds no status code to the histogram and no latency to the
  latency list. So, starting from a new monitor, after any sequence of probes the
  histogram counts sum to the number of latencies, and \<open>total_requests\<close> is the number of
  latencies plus the number of recorded errors (and the number of probes).
\<close>

theorem histogram_counts_answered_probes:
  "(let st = stats m; st' = stats (snd (make_sample_request jl m ep p)) in
      (case outcome p of
         Raises e \<Rightarrow>
           status_codes st' = status_codes st \<and>
           response_times st' = response_times st \<and>
           errors st' = errors st @ [if e = AsyncioTimeoutError then ''timeout'' else str_exc e] \<and>
           total_requests st' = total_requests st + 1 \<and>
           failed_requests st' = failed_requests st + 1 \<and>
           successful_requests st' = successful_requests st
       | Responds response \<Rightarrow>
           (case content_length_of (hdrs response) of
              Inr n \<Rightarrow>
                status_codes st' = dict_incr (status_codes st) (status response) \<and>
                dict_total (status_codes st') = dict_total (status_codes st) + 1 \<and>
                response_times st' =
                  response_times st @ [(clock_end p - clock_start p) * 1000] \<and>
                errors st' = errors st \<and>
                total_requests st' = total_requests st + 1
            | Inl e \<Rightarrow>
                status_codes st' = status_codes st \<and>
                response_times st' = response_times st \<and>
                errors st' = errors st @ [str_exc e] \<and>
                total_requests st' = total_requests st + 1 \<and>
                failed_requests st' = failed_requests st + 1 \<and>
                successful_requests st' = successful_requests st))) \<and>
   (let st = stats (snd (gather jl (init_monitor d i) nt tasks)) in
      dict_total (status_codes st) = int (length (response_times st)) \<and>
      total_requests st = int (length (response_times st)) + int (length (errors st)) \<and>
      total_requests st = int (length tasks))"
proof -
  let ?m0 = "init_monitor d i"
  have z: "stats ?m0 = init_stats" by (simp add: init_monitor_def)
  have a: "dict_total (status_codes (stats (snd (gather jl ?m0 nt tasks)))) =
          int (length (response_times (stats (snd (gather jl ?m0 nt tasks)))))"
    using gather_histogram [of jl ?m0 nt tasks] by (simp add: z init_stats_def dict_total_def)
  have b: "total_requests (stats (snd (gather jl ?m0 nt tasks))) = int (length tasks)"
    using gather_total [of jl ?m0 nt tasks] by (simp add: z init_stats_def)
  have c: "int (length (response_times (stats (snd (gather jl ?m0 nt tasks))))) +
      int (length (errors (stats (snd (gather jl ?m0 nt tasks))))) = int (length tasks)"
    using gather_answered [of jl ?m0 nt tasks] by (simp add: z init_stats_def)
  have step: "let st = stats m; st' = stats (snd (make_sample_request jl m ep p)) in
      (case outcome p of
         Raises e \<Rightarrow>
           status_codes st' = status_codes st \<and>
           response_times st' = response_times st \<and>
           errors st' = errors st @ [if e = AsyncioTimeoutError then ''timeout'' else str_exc e] \<and>
           total_requests st' = total_requests st + 1 \<and>
           failed_requests st' = failed_requests st + 1 \<and>
           successful_requests st' = successful_requests st
       | Responds response \<Rightarrow>
           (case content_length_of (hdrs response) of
              Inr n \<Rightarrow>
                status_codes st' = dict_incr (status_codes st) (status response) \<and>
                dict_total (status_codes st') = dict_total (status_codes st) + 1 \<and>
                response_times st' =
                  response_times st @ [(clock_end p - clock_start p) * 1000] \<and>
                errors st' = errors st \<and>
                total_requests st' = total_requests st + 1
            | Inl e \<Rightarrow>
                status_codes st' = status_codes st \<and>
                response_times st' = response_times st \<and>
                errors st' = errors st @ [str_exc e] \<and>
                total_requests st' = total_requests st + 1 \<and>
                failed_requests st' = failed_requests st + 1 \<and>
                successful_requests st' = successful_requests st))"
    by (simp add: Let_def make_sample_request_eq sample_request_effect record_failure_fields
          record_response_fields record_response_counters dict_total_incr
          split: request_outcome.splits sum.splits)
  show ?thesis using step a b c by (simp add: Let_def)
qed

text \<open>
  Claim C4, as stated: the histogram counts sum to \<open>total_requests\<close> and so does the number
  of latencies. After one probe that times out, on a new monitor, the histogram total is
  0 and there are 0 latencies, while \<open>total_requests\<close> is 1.
\<close>

theorem timeout_not_in_histogram_counterexample:
  "(dict_total (status_codes (stats (snd (make_sample_request no_json (init_monitor 60 2)
       ''http://localhost:8080/wrk2-api/user/login'' timeout_probe)))),
    length (response_times (stats (snd (make_sample_request no_json (init_monitor 60 2)
       ''http://localhost:8080/wrk2-api/user/login'' timeout_probe)))),
    total_requests (stats (snd (make_sample_request no_json (init_monitor 60 2)
       ''http://localhost:8080/wrk2-api/user/login'' timeout_probe))))
   = (0, 0, 1)"
  by (simp add: make_sample_request_eq sample_request_def try_request_def timeout_probe_def
        record_failure_def init_monitor_def init_stats_def dict_total_def)

text \<open>
  Claim C8, amended. \<open>make_sample_request\<close> does update the statistics, and they are the
  only field of the monitor it changes: \<open>self.responses\<close> and the log are left to the
  caller. For every outcome \<open>total_requests\<close> rises by one. A recorded response raises
  \<open>successful_requests\<close> when its status is in \<open>[200, 400)\<close> and \<open>failed_requests\<close>
  otherwise, adds its status to the histogram and its latency to the latency list, and
  leaves the error list alone. A timeout or any other failure raises \<open>failed_requests\<close>
  and appends its message to the error list, and leaves the histogram and the latency
  list alone.
\<close>

theorem make_sample_request_writes_stats_only:
  "let m' = snd (make_sample_request jl m ep p); st = stats m; st' = stats m' in
     m' = m\<lparr>stats := st'\<rparr> \<and>
     responses m' = responses m \<and> log_file m' = log_file m \<and>
     total_requests st' = total_requests st + 1 \<and>
     (case outcome p of
        Raises e \<Rightarrow>
          successful_requests st' = successful_requests st \<and>
          failed_requests st' = failed_requests st + 1 \<and>
          status_codes st' = status_codes st \<and>
          response_times st' = response_times st \<and>
          errors st' = errors st @ [if e = AsyncioTimeoutError then ''timeout'' else str_exc e]
      | Responds response \<Rightarrow>
          (case content_length_of (hdrs response) of
             Inr n \<Rightarrow>
               (if 200 \<le> status response \<and> status response < 400
                then successful_requests st' = successful_requests st + 1 \<and>
                     failed_requests st' = failed_requests st
                else successful_requests st' = successful_requests st \<and>
                     failed_requests st' = failed_requests st + 1) \<and>
               status_codes st' = dict_incr (status_codes st) (status response) \<and>
               dict_total (status_codes st') = dict_total (status_codes st) + 1 \<and>
               response_times st' =
                 response_times st @ [(clock_end p - clock_start p) * 1000] \<and>
               errors st' = errors st
           | Inl e \<Rightarrow>
               successful_requests st' = successful_requests st \<and>
               failed_requests st' = failed_requests st + 1 \<and>
               status_codes st' = status_codes st \<and>
               response_times st' = response_times st \<and>
               errors st' = errors st @ [str_exc e]))"
  by (simp add: Let_def make_sample_request_eq sample_request_effect sample_request_total
        record_failure_fields record_response_fields record_response_counters dict_total_incr
        split: request_outcome.splits sum.splits)

text \<open>
  Claim C8, as stated: \<open>make_sample_request\<close> leaves the statistics unchanged. One probe
  that times out, on a new monitor, changes three of the six entries.
\<close>

theorem make_sample_request_frame_counterexample:
  "stats (snd (make_sample_request no_json (init_monitor 60 2)
      ''http://localhost:8080/wrk2-api/user/login'' timeout_probe)) =
     \<lparr>total_requests = 1, successful_requests = 0, failed_requests = 1,
      status_codes = [], response_times = [], errors = [''timeout'']\<rparr> \<and>
   stats (init_monitor 60 2) =
     \<lparr>total_requests = 0, successful_requests = 0, failed_requests = 0,
      status_codes = [], response_times = [], errors = []\<rparr>"
  by (simp add: make_sample_request_eq sample_request_def try_request_def timeout_probe_def
        record_failure_def init_monitor_def init_stats_def)

text \<open>
  Claim C9, as stated: the flag is observed only before a round starts and during the
  sleep. Of two rounds that both passed the loop test with two active addresses, the one
  in which a signal is delivered when the first coroutine has been created logs one
  record, the other one two: the flag is observed inside the round.
\<close>

theorem signal_in_dispatch_counterexample:
  "map endpoint (log_file (run_round no_json (init_monitor 60 2)
      [''http://localhost:8080/wrk2-api/user/register'',
       ''http://localhost:8080/wrk2-api/user/follow''] interrupted_round)) =
     [''http://localhost:8080/wrk2-api/user/register''] \<and>
   map endpoint (log_file (run_round no_json (init_monitor 60 2)
      [''http://localhost:8080/wrk2-api/user/register'',
       ''http://localhost:8080/wrk2-api/user/follow''] (quiet_round 1))) =
     [''http://localhost:8080/wrk2-api/user/register'',
      ''http://localhost:8080/wrk2-api/user/follow'']"
  by (simp add: run_round_eq Let_def round_tasks_eq round_records interrupted_round_def
        quiet_round_def init_monitor_def)

text \<open>
  Claim C10. Each probe raises \<open>total_requests\<close> by one, and exactly one of
  \<open>successful_requests\<close> (when the record's status code is in \<open>[200, 400)\<close>, which only a
  received response can have) and \<open>failed_requests\<close> (any other status, a timeout with its
  408, a connection error with its 0) by one. So, starting from a new monitor, after any
  sequence of probes \<open>total_requests = successful_requests + failed_requests\<close>.
\<close>

theorem counters_balanced:
  "(let m' = snd (make_sample_request jl m ep p) in
      total_requests (stats m') = total_requests (stats m) + 1 \<and>
      (\<exists>r. fst (make_sample_request jl m ep p) = Inr r \<and>
         (if 200 \<le> status_code r \<and> status_code r < 400
          then successful_requests (stats m') = successful_requests (stats m) + 1 \<and>
               failed_requests (stats m') = failed_requests (stats m)
          else successful_requests (stats m') = successful_requests (stats m) \<and>
               failed_requests (stats m') = failed_requests (stats m) + 1))) \<and>
   (let st = stats (snd (gather jl (init_monitor d i) nt tasks)) in
      total_requests st = successful_requests st + failed_requests st)"
proof -
  let ?m0 = "init_monitor d i"
  have z: "stats ?m0 = init_stats" by (simp add: init_monitor_def)
  have "total_requests (stats (snd (gather jl ?m0 nt tasks))) =
     successful_requests (stats (snd (gather jl ?m0 nt tasks))) +
     failed_requests (stats (snd (gather jl ?m0 nt tasks)))"
    using gather_total [of jl ?m0 nt tasks] gather_balance [of jl ?m0 nt tasks]
    by (simp add: z init_stats_def)
  then show ?thesis using probe_counts_once [of jl m ep p] by (simp add: Let_def)
qed

end
